theory Spec2Isabelle
  imports Complex_Main "HOL-Library.Word"
begin

section \<open>Values of the Python runtime\<close>

text \<open>
  The program is \<^verbatim>\<open>edicionvoz.py\<close>: the class \<^verbatim>\<open>AudioCombiner\<close> with its two
  methods, and the Streamlit script \<^verbatim>\<open>main\<close>. Uploaded files and files on disk are
  byte strings. An exception is kept with its class and its message \<^verbatim>\<open>str(e)\<close>, the part
  the two \<^verbatim>\<open>except\<close> clauses print.
\<close>

type_synonym bytes = "8 word list"

datatype py_exception =
    AttributeError string
  | IndexError string
  | FileNotFoundError string
  | LibraryError string

fun str :: "py_exception \<Rightarrow> string" where
  "str (AttributeError m) = m"
| "str (IndexError m) = m"
| "str (FileNotFoundError m) = m"
| "str (LibraryError m) = m"

text \<open>
  \<^verbatim>\<open>int(x)\<close> of a finite float: the integer part, rounded towards zero. Finite floats
  are read as the real numbers they denote.
\<close>

definition py_int :: "real \<Rightarrow> int" where
  "py_int x = (if x < 0 then - \<lfloor>- x\<rfloor> else \<lfloor>x\<rfloor>)"

text \<open>
  \<^verbatim>\<open>xs.pop(i)\<close> as CPython does it: an empty list raises, a negative index counts from
  the end, and an index that is still out of range raises. The list is returned without
  the popped element; on an exception the list is left as it was.
\<close>

definition py_pop :: "'a list \<Rightarrow> int \<Rightarrow> py_exception + ('a \<times> 'a list)" where
  "py_pop xs i =
     (let n = int (length xs);
          j = (if i < 0 then i + n else i)
      in if xs = [] then Inl (IndexError ''pop from empty list'')
         else if j < 0 \<or> n \<le> j then Inl (IndexError ''pop index out of range'')
         else Inr (xs ! nat j, take (nat j) xs @ drop (Suc (nat j)) xs))"

text \<open>
  \<^verbatim>\<open>audio_file.getvalue()\<close>: the uploader widget returns \<^verbatim>\<open>None\<close> while nothing is
  uploaded, and the attribute access on \<^verbatim>\<open>None\<close> raises. (The message is Python's
  without its quotation marks.)
\<close>

definition getvalue :: "bytes option \<Rightarrow> py_exception + bytes" where
  "getvalue audio_file =
     (case audio_file of
        None \<Rightarrow> Inl (AttributeError ''NoneType object has no attribute getvalue'')
      | Some b \<Rightarrow> Inr b)"

section \<open>The collaborators\<close>

text \<open>
  The audio library (pydub), the speech recogniser and the float multiplication are not
  code of the program. They are parameters of the model: a waveform is any type \<open>'w\<close>,
  and each call that can raise returns a sum. \<open>float_mul\<close> is the product of two floats
  as the machine rounds it.
\<close>

record 'w runtime =
  from_file :: "bytes \<Rightarrow> py_exception + 'w"
  audio_empty :: 'w
  audio_slice :: "'w \<Rightarrow> int \<Rightarrow> int \<Rightarrow> py_exception + 'w"
  audio_add :: "'w \<Rightarrow> 'w \<Rightarrow> py_exception + 'w"
  audio_export :: "'w \<Rightarrow> py_exception + bytes"
  recognize_google :: "bytes \<Rightarrow> py_exception + string"
  float_mul :: "real \<Rightarrow> real \<Rightarrow> real"

section \<open>Files and what the page shows\<close>

text \<open>
  A path is the name of a temporary file (\<^verbatim>\<open>tempfile.NamedTemporaryFile\<close> picks a new
  one each time: the counter \<open>next_tmp\<close>) or a name the program writes out itself.
  \<open>shown\<close> lists what the script has put on the page: errors, success messages, the
  audio player, the download button, and an exception no handler caught. What is written
  to a file is on the disk at once (buffering is not modelled).
\<close>

datatype path = TmpFile nat | NamedFile string

datatype ui_event =
    StError string
  | StSuccess string
  | StAudio bytes
  | StDownload bytes string
  | StException py_exception

record io_state =
  files :: "path \<rightharpoonup> bytes"
  next_tmp :: nat
  shown :: "ui_event list"

definition named_temporary_file :: "io_state \<Rightarrow> path \<times> io_state" where
  "named_temporary_file s =
     (TmpFile (next_tmp s),
      s\<lparr>files := (files s)(TmpFile (next_tmp s) \<mapsto> []), next_tmp := Suc (next_tmp s)\<rparr>)"

definition tmp_write :: "path \<Rightarrow> bytes \<Rightarrow> io_state \<Rightarrow> io_state" where
  "tmp_write p b s =
     s\<lparr>files := (files s)(p \<mapsto> (case files s p of None \<Rightarrow> b | Some old \<Rightarrow> old @ b))\<rparr>"

definition export_to :: "path \<Rightarrow> bytes \<Rightarrow> io_state \<Rightarrow> io_state" where
  "export_to p b s = s\<lparr>files := (files s)(p \<mapsto> b)\<rparr>"

definition unlink :: "path \<Rightarrow> io_state \<Rightarrow> io_state" where
  "unlink p s = s\<lparr>files := (files s)(p := None)\<rparr>"

definition read_file :: "io_state \<Rightarrow> path \<Rightarrow> py_exception + bytes" where
  "read_file s p =
     (case files s p of
        None \<Rightarrow> Inl (FileNotFoundError ''No such file or directory'')
      | Some b \<Rightarrow> Inr b)"

definition from_file_path :: "'w runtime \<Rightarrow> io_state \<Rightarrow> path \<Rightarrow> py_exception + 'w" where
  "from_file_path L s p =
     (case read_file s p of Inl e \<Rightarrow> Inl e | Inr b \<Rightarrow> from_file L b)"

definition st_error :: "string \<Rightarrow> io_state \<Rightarrow> io_state" where
  "st_error msg s = s\<lparr>shown := shown s @ [StError msg]\<rparr>"

definition st_success :: "string \<Rightarrow> io_state \<Rightarrow> io_state" where
  "st_success msg s = s\<lparr>shown := shown s @ [StSuccess msg]\<rparr>"

definition st_show :: "ui_event \<Rightarrow> io_state \<Rightarrow> io_state" where
  "st_show ev s = s\<lparr>shown := shown s @ [ev]\<rparr>"

section \<open>AudioCombiner\<close>

subsection \<open>load_and_transcribe (lines 12-35)\<close>

text \<open>
  The temporary file is created with \<^verbatim>\<open>delete=False\<close>, filled with the upload, decoded,
  exported over itself as WAV and read by the recogniser. \<^verbatim>\<open>os.unlink\<close> is the last
  statement of the \<^verbatim>\<open>try\<close> body; the \<^verbatim>\<open>except\<close> clause shows the error and returns
  \<^verbatim>\<open>None\<close>.
\<close>

definition transcribe_failed :: "py_exception \<Rightarrow> io_state \<Rightarrow> string option \<times> io_state" where
  "transcribe_failed e s = (None, st_error (''Error processing audio: '' @ str e) s)"

definition load_and_transcribe ::
  "'w runtime \<Rightarrow> bytes option \<Rightarrow> io_state \<Rightarrow> string option \<times> io_state" where
  "load_and_transcribe L audio_file s =
     (let (tmp_path, s1) = named_temporary_file s in
      case getvalue audio_file of
        Inl e \<Rightarrow> transcribe_failed e s1
      | Inr b \<Rightarrow>
         (let s2 = tmp_write tmp_path b s1 in
          case from_file_path L s2 tmp_path of
            Inl e \<Rightarrow> transcribe_failed e s2
          | Inr audio \<Rightarrow>
             (case audio_export L audio of
                Inl e \<Rightarrow> transcribe_failed e s2
              | Inr wav \<Rightarrow>
                 (let s3 = export_to tmp_path wav s2 in
                  case read_file s3 tmp_path of
                    Inl e \<Rightarrow> transcribe_failed e s3
                  | Inr audio_data \<Rightarrow>
                     (case recognize_google L audio_data of
                        Inl e \<Rightarrow> transcribe_failed e s3
                      | Inr txt \<Rightarrow> (Some txt, unlink tmp_path s3))))))"

subsection \<open>combine_segments (lines 37-71)\<close>

text \<open>
  A selected segment is the dictionary built at lines 131-136, with the keys
  \<^verbatim>\<open>source\<close>, \<^verbatim>\<open>text\<close>, \<^verbatim>\<open>start\<close> and \<^verbatim>\<open>end\<close>.
\<close>

record segment =
  seg_source :: string
  seg_text :: string
  seg_start :: real
  seg_end :: real

definition source_audio :: "'w \<Rightarrow> 'w \<Rightarrow> segment \<Rightarrow> 'w" where
  "source_audio audio1 audio2 seg = (if seg_source seg = ''audio1'' then audio1 else audio2)"

definition start_ms :: "'w runtime \<Rightarrow> segment \<Rightarrow> int" where
  "start_ms L seg = py_int (float_mul L (seg_start seg) 1000)"

definition end_ms :: "'w runtime \<Rightarrow> segment \<Rightarrow> int" where
  "end_ms L seg = py_int (float_mul L (seg_end seg) 1000)"

text \<open>The loop of lines 54-59, with \<open>combined\<close> as its accumulator.\<close>

fun combine_loop ::
  "'w runtime \<Rightarrow> 'w \<Rightarrow> 'w \<Rightarrow> 'w \<Rightarrow> segment list \<Rightarrow> py_exception + 'w" where
  "combine_loop L audio1 audio2 combined [] = Inr combined"
| "combine_loop L audio1 audio2 combined (seg # rest) =
     (case audio_slice L (source_audio audio1 audio2 seg) (start_ms L seg) (end_ms L seg) of
        Inl e \<Rightarrow> Inl e
      | Inr audio_segment \<Rightarrow>
         (case audio_add L combined audio_segment of
            Inl e \<Rightarrow> Inl e
          | Inr combined' \<Rightarrow> combine_loop L audio1 audio2 combined' rest))"

definition output_path :: string where
  "output_path = ''combined_audio.wav''"

definition combine_failed :: "py_exception \<Rightarrow> io_state \<Rightarrow> string option \<times> io_state" where
  "combine_failed e s = (None, st_error (''Error combining audio: '' @ str e) s)"

text \<open>
  Both temporary files exist before the body of the \<^verbatim>\<open>with\<close> statement runs. They are
  unlinked after the loop and before the export; an exception anywhere in the body goes
  to the \<^verbatim>\<open>except\<close> clause. A failing export is modelled as leaving the output file as
  it was.
\<close>

definition combine_segments ::
  "'w runtime \<Rightarrow> bytes option \<Rightarrow> bytes option \<Rightarrow> segment list \<Rightarrow> io_state
     \<Rightarrow> string option \<times> io_state" where
  "combine_segments L audio1_file audio2_file selected_segments s =
     (let (tmp1, s1) = named_temporary_file s;
          (tmp2, s2) = named_temporary_file s1
      in case getvalue audio1_file of
        Inl e \<Rightarrow> combine_failed e s2
      | Inr b1 \<Rightarrow>
         (let s3 = tmp_write tmp1 b1 s2 in
          case getvalue audio2_file of
            Inl e \<Rightarrow> combine_failed e s3
          | Inr b2 \<Rightarrow>
             (let s4 = tmp_write tmp2 b2 s3 in
              case from_file_path L s4 tmp1 of
                Inl e \<Rightarrow> combine_failed e s4
              | Inr audio1 \<Rightarrow>
                 (case from_file_path L s4 tmp2 of
                    Inl e \<Rightarrow> combine_failed e s4
                  | Inr audio2 \<Rightarrow>
                     (case combine_loop L audio1 audio2 (audio_empty L) selected_segments of
                        Inl e \<Rightarrow> combine_failed e s4
                      | Inr combined \<Rightarrow>
                         (let s5 = unlink tmp2 (unlink tmp1 s4) in
                          case audio_export L combined of
                            Inl e \<Rightarrow> combine_failed e s5
                          | Inr wav \<Rightarrow>
                             (Some output_path,
                              export_to (NamedFile output_path) wav s5)))))))"

section \<open>main\<close>

text \<open>
  The session state holds the two transcriptions and the list of selected segments. A
  new session has neither key (lines 77-80 create them); a later run of the script finds
  what the run before left.
\<close>

record session_state =
  transcriptions :: "string \<Rightarrow> string option"
  segments :: "segment list"

definition initialise :: "session_state option \<Rightarrow> session_state" where
  "initialise stored =
     (case stored of
        None \<Rightarrow> \<lparr>transcriptions = (\<lambda>k. None), segments = []\<rparr>
      | Some ss \<Rightarrow> ss)"

definition truthy :: "string option \<Rightarrow> bool" where
  "truthy v = (case v of None \<Rightarrow> False | Some t \<Rightarrow> t \<noteq> [])"

text \<open>
  Lines 90-95 and 100-105: the two transcribe buttons. A text that is empty is not
  stored (\<^verbatim>\<open>if text:\<close>).
\<close>

definition transcribe_clicked ::
  "'w runtime \<Rightarrow> string \<Rightarrow> string \<Rightarrow> bytes option \<Rightarrow> session_state \<times> io_state
     \<Rightarrow> session_state \<times> io_state" where
  "transcribe_clicked L slot done audio_file st =
     (case st of (ss, s) \<Rightarrow>
        (case load_and_transcribe L audio_file s of
           (None, s') \<Rightarrow> (ss, s')
         | (Some txt, s') \<Rightarrow>
            (if txt \<noteq> []
             then (ss\<lparr>transcriptions := (transcriptions ss)(slot := Some txt)\<rparr>,
                   st_success done s')
             else (ss, s'))))"

text \<open>Lines 130-138: the button that adds a segment.\<close>

definition add_segment ::
  "string \<Rightarrow> string \<Rightarrow> real \<Rightarrow> real \<Rightarrow> session_state \<times> io_state
     \<Rightarrow> session_state \<times> io_state" where
  "add_segment source txt start_time end_time st =
     (case st of (ss, s) \<Rightarrow>
        (let new_segment = \<lparr>seg_source = source, seg_text = txt,
                             seg_start = start_time, seg_end = end_time\<rparr>
         in (ss\<lparr>segments := segments ss @ [new_segment]\<rparr>, st_success ''Segment added!'' s)))"

text \<open>
  Lines 150-152: a remove button pops its index from the list and the script is run
  again (a run with no button pressed). An exception of \<^verbatim>\<open>pop\<close> is not caught by
  the script; Streamlit shows it.
\<close>

definition remove_segment :: "int \<Rightarrow> session_state \<Rightarrow> py_exception + session_state" where
  "remove_segment i ss =
     (case py_pop (segments ss) i of
        Inl e \<Rightarrow> Inl e
      | Inr (popped, rest) \<Rightarrow> Inr (ss\<lparr>segments := rest\<rparr>))"

definition remove_clicked ::
  "int \<Rightarrow> session_state \<times> io_state \<Rightarrow> session_state \<times> io_state" where
  "remove_clicked i st =
     (case st of (ss, s) \<Rightarrow>
        (case remove_segment i ss of
           Inl e \<Rightarrow> (ss, st_show (StException e) s)
         | Inr ss' \<Rightarrow> (ss', s)))"

text \<open>
  Lines 155-179: the combine button. It is there only while the list is not empty; both
  uploads must be present, else one fixed message is shown.
\<close>

definition combine_clicked ::
  "'w runtime \<Rightarrow> bytes option \<Rightarrow> bytes option \<Rightarrow> session_state \<times> io_state
     \<Rightarrow> session_state \<times> io_state" where
  "combine_clicked L audio1_file audio2_file st =
     (case st of (ss, s) \<Rightarrow>
        (if segments ss \<noteq> [] then
           (if audio1_file \<noteq> None \<and> audio2_file \<noteq> None then
              (case combine_segments L audio1_file audio2_file (segments ss) s of
                 (None, s') \<Rightarrow> (ss, s')
               | (Some out, s') \<Rightarrow>
                  (let s1 = st_success ''Audio combined successfully!'' s' in
                   case read_file s1 (NamedFile out) of
                     Inl e \<Rightarrow> (ss, st_show (StException e) s1)
                   | Inr audio_bytes \<Rightarrow>
                      (ss, st_show (StDownload audio_bytes ''combined_audio.wav'')
                             (st_show (StAudio audio_bytes) s1))))
            else (ss, st_error ''Please upload both audio files first!'' s))
         else (ss, s)))"

text \<open>
  One run of the script with at most one button pressed. The segment section (add,
  remove, combine) is on the page only when both transcriptions are there (line 117), and
  there is one remove button for each index of the list (line 143).
\<close>

datatype click =
    NoClick
  | TranscribeAudio1
  | TranscribeAudio2
  | AddSegment string string real real
  | Remove nat
  | CombineSelected

definition selection_visible :: "session_state \<Rightarrow> bool" where
  "selection_visible ss =
     (truthy (transcriptions ss ''audio1'') \<and> truthy (transcriptions ss ''audio2''))"

definition main ::
  "'w runtime \<Rightarrow> bytes option \<Rightarrow> bytes option \<Rightarrow> click \<Rightarrow> session_state option \<times> io_state
     \<Rightarrow> session_state \<times> io_state" where
  "main L audio1_file audio2_file c st =
     (case st of (stored, s) \<Rightarrow>
        (let ss = initialise stored in
         case c of
           NoClick \<Rightarrow> (ss, s)
         | TranscribeAudio1 \<Rightarrow>
             (if audio1_file \<noteq> None
              then transcribe_clicked L ''audio1'' ''Audio 1 transcribed successfully!''
                     audio1_file (ss, s)
              else (ss, s))
         | TranscribeAudio2 \<Rightarrow>
             (if audio2_file \<noteq> None
              then transcribe_clicked L ''audio2'' ''Audio 2 transcribed successfully!''
                     audio2_file (ss, s)
              else (ss, s))
         | AddSegment source txt start_time end_time \<Rightarrow>
             (if selection_visible ss
              then add_segment source txt start_time end_time (ss, s) else (ss, s))
         | Remove i \<Rightarrow>
             (if selection_visible ss \<and> i < length (segments ss)
              then remove_clicked (int i) (ss, s) else (ss, s))
         | CombineSelected \<Rightarrow>
             (if selection_visible ss
              then combine_clicked L audio1_file audio2_file (ss, s) else (ss, s))))"

section \<open>A reference runtime\<close>

text \<open>
  One instance of the collaborators, to run the program on concrete inputs: a waveform
  is a list of 8-bit frames at one frame per millisecond, an upload that is empty or
  starts with a zero byte does not decode, a slice is clamped to the clip, and floats
  multiply exactly.
\<close>

definition ms_slice :: "bytes \<Rightarrow> int \<Rightarrow> int \<Rightarrow> bytes" where
  "ms_slice w s e = drop (nat s) (take (nat e) w)"

definition reference_runtime :: "bytes runtime" where
  "reference_runtime =
     \<lparr>from_file = (\<lambda>b. case b of
                     [] \<Rightarrow> Inl (LibraryError ''Decoding failed'')
                   | x # rest \<Rightarrow> if x = 0 then Inl (LibraryError ''Decoding failed'')
                               else Inr b),
      audio_empty = [],
      audio_slice = (\<lambda>w s e. Inr (ms_slice w s e)),
      audio_add = (\<lambda>a b. Inr (a @ b)),
      audio_export = (\<lambda>w. Inr w),
      recognize_google = (\<lambda>b. if b = [] then Inl (LibraryError ''UnknownValueError'')
                                else Inr ''hello''),
      float_mul = (\<lambda>x y. x * y)\<rparr>"

definition empty_disk :: io_state where
  "empty_disk = \<lparr>files = (\<lambda>p. None), next_tmp = 0, shown = []\<rparr>"

section \<open>The combiner against its description\<close>



text \<open>
  The disk while the loop runs (both uploads staged in their temporary files) and after
  the two calls of \<^verbatim>\<open>os.unlink\<close>.
\<close>

definition staged :: "bytes \<Rightarrow> bytes \<Rightarrow> io_state \<Rightarrow> io_state" where
  "staged b1 b2 s =
     s\<lparr>files := (files s)(TmpFile (next_tmp s) \<mapsto> b1, TmpFile (Suc (next_tmp s)) \<mapsto> b2),
       next_tmp := Suc (Suc (next_tmp s))\<rparr>"

definition cleaned :: "io_state \<Rightarrow> io_state" where
  "cleaned s =
     s\<lparr>files := (files s)(TmpFile (next_tmp s) := None, TmpFile (Suc (next_tmp s)) := None),
       next_tmp := Suc (Suc (next_tmp s))\<rparr>"

text \<open>
  What a run of \<open>combine_segments\<close> hands to the page: lines 163-168 read the file
  at the returned path back; a run that returns \<^verbatim>\<open>None\<close> hands over nothing.
\<close>

definition combined_bytes ::
  "'w runtime \<Rightarrow> bytes option \<Rightarrow> bytes option \<Rightarrow> segment list \<Rightarrow> io_state
     \<Rightarrow> bytes option" where
  "combined_bytes L audio1_file audio2_file selected_segments s =
     (case combine_segments L audio1_file audio2_file selected_segments s of
        (None, s') \<Rightarrow> None
      | (Some out, s') \<Rightarrow> files s' (NamedFile out))"

section \<open>A scenario\<close>

text \<open>
  Two clips of the reference runtime, of five and three milliseconds, and three segments
  that take the first millisecond of the first clip, the second of the second clip and
  the third of the first clip.
\<close>

definition clip_a :: bytes where
  "clip_a = [10, 11, 12, 13, 14]"

definition clip_b :: bytes where
  "clip_b = [20, 21, 22]"

definition three_segments :: "segment list" where
  "three_segments =
     [\<lparr>seg_source = ''audio1'', seg_text = ''one'', seg_start = 0, seg_end = 1 / 1000\<rparr>,
      \<lparr>seg_source = ''audio2'', seg_text = ''two'', seg_start = 1 / 1000, seg_end = 2 / 1000\<rparr>,
      \<lparr>seg_source = ''audio1'', seg_text = ''three'', seg_start = 2 / 1000, seg_end = 3 / 1000\<rparr>]"


text \<open>Two segments, the second with a source that is neither of the two tags.\<close>

definition misspelled_segments :: "segment list" where
  "misspelled_segments =
     [\<lparr>seg_source = ''audio1'', seg_text = ''one'', seg_start = 0, seg_end = 1 / 1000\<rparr>,
      \<lparr>seg_source = ''Audio1'', seg_text = ''two'', seg_start = 0, seg_end = 1 / 1000\<rparr>]"

text \<open>A session with both transcriptions and the three segments of the scenario.\<close>

definition two_transcripts :: session_state where
  "two_transcripts =
     \<lparr>transcriptions = (\<lambda>k. None)(''audio1'' := Some ''hello'', ''audio2'' := Some ''world''),
      segments = three_segments\<rparr>"


text \<open>Two sessions with one segment each, of the second clip and of the first.\<close>

definition second_only :: session_state where
  "second_only =
     \<lparr>transcriptions = (\<lambda>k. None)(''audio1'' := Some ''hello'', ''audio2'' := Some ''world''),
      segments = [\<lparr>seg_source = ''audio2'', seg_text = ''two'', seg_start = 0, seg_end = 1 / 1000\<rparr>]\<rparr>"

definition first_only :: session_state where
  "first_only =
     \<lparr>transcriptions = (\<lambda>k. None)(''audio1'' := Some ''hello'', ''audio2'' := Some ''world''),
      segments = [\<lparr>seg_source = ''audio1'', seg_text = ''one'', seg_start = 0, seg_end = 1 / 1000\<rparr>]\<rparr>"

section \<open>Properties\<close>

subsection \<open>The loop and the files of combine_segments\<close>


lemma combine_segments_uploaded:
  "combine_segments L (Some b1) (Some b2) segs s =
     (case from_file L b1 of
        Inl e \<Rightarrow> combine_failed e (staged b1 b2 s)
      | Inr audio1 \<Rightarrow>
         (case from_file L b2 of
            Inl e \<Rightarrow> combine_failed e (staged b1 b2 s)
          | Inr audio2 \<Rightarrow>
             (case combine_loop L audio1 audio2 (audio_empty L) segs of
                Inl e \<Rightarrow> combine_failed e (staged b1 b2 s)
              | Inr combined \<Rightarrow>
                 (case audio_export L combined of
                    Inl e \<Rightarrow> combine_failed e (cleaned s)
                  | Inr wav \<Rightarrow>
                     (Some output_path, export_to (NamedFile output_path) wav (cleaned s))))))"
  by (cases s)
     (simp add: combine_segments_def getvalue_def named_temporary_file_def tmp_write_def
        from_file_path_def read_file_def unlink_def staged_def cleaned_def Let_def
      split: sum.splits)


subsection \<open>Order of concatenation\<close>



subsection \<open>Runs with an upload missing\<close>

lemma combine_segments_no_first:
  "combine_segments L None f2 segs s =
     combine_failed (AttributeError ''NoneType object has no attribute getvalue'')
       (snd (named_temporary_file (snd (named_temporary_file s))))"
  by (simp add: combine_segments_def getvalue_def named_temporary_file_def Let_def)

lemma combine_segments_no_second:
  "combine_segments L (Some b1) None segs s =
     combine_failed (AttributeError ''NoneType object has no attribute getvalue'')
       (tmp_write (TmpFile (next_tmp s)) b1
         (snd (named_temporary_file (snd (named_temporary_file s)))))"
  by (simp add: combine_segments_def getvalue_def named_temporary_file_def Let_def)

subsection \<open>Determinism\<close>

text \<open>
  C2. The value \<open>combine_segments\<close> returns and the bytes it hands to the page depend
  on the two uploads and the descriptor list only, not on the files or the page it
  starts from: two runs on the same inputs, from any two states (so also one run after
  the other), give the same bytes.
\<close>

theorem combine_deterministic:
  "fst (combine_segments L f1 f2 segs s) = fst (combine_segments L f1 f2 segs s') \<and>
   combined_bytes L f1 f2 segs s = combined_bytes L f1 f2 segs s'"
proof (cases f1)
  case None
  then show ?thesis
    by (simp add: combined_bytes_def combine_segments_no_first combine_failed_def)
next
  case f1: (Some b1)
  show ?thesis
  proof (cases f2)
    case None
    with f1 show ?thesis
      by (simp add: combined_bytes_def combine_segments_no_second combine_failed_def)
  next
    case (Some b2)
    with f1 show ?thesis
      by (simp add: combined_bytes_def combine_segments_uploaded combine_failed_def
            export_to_def split: sum.splits)
  qed
qed

subsection \<open>Seconds to milliseconds\<close>




subsection \<open>The source tag\<close>

lemma combine_loop_source_cong:
  "seg_source d \<noteq> ''audio1'' \<Longrightarrow>
   combine_loop L a1 a2 acc (pre @ d # rest) =
   combine_loop L a1 a2 acc (pre @ d\<lparr>seg_source := ''audio2''\<rparr> # rest)"
  by (induction pre arbitrary: acc)
     (simp_all add: source_audio_def start_ms_def end_ms_def split: sum.splits)

text \<open>
  C10. The source of a descriptor is compared with \<^verbatim>\<open>audio1\<close> and nothing else:
  for any other value, a misspelled or unknown one too, the loop slices the second clip,
  no run rejects the descriptor, and \<open>combine_segments\<close> does exactly what it does
  when the descriptor says \<^verbatim>\<open>audio2\<close>.
\<close>

theorem unknown_source_is_second_clip:
  assumes "seg_source seg \<noteq> ''audio1''"
  shows "source_audio audio1 audio2 seg = audio2 \<and>
    combine_loop L audio1 audio2 combined (seg # rest) =
      (case audio_slice L audio2 (start_ms L seg) (end_ms L seg) of
         Inl e \<Rightarrow> Inl e
       | Inr piece \<Rightarrow>
          (case audio_add L combined piece of
             Inl e \<Rightarrow> Inl e
           | Inr combined' \<Rightarrow> combine_loop L audio1 audio2 combined' rest)) \<and>
    combine_segments L f1 f2 (pre @ seg # rest) s =
      combine_segments L f1 f2 (pre @ seg\<lparr>seg_source := ''audio2''\<rparr> # rest) s"
proof (intro conjI)
  show a: "source_audio audio1 audio2 seg = audio2"
    using assms by (simp add: source_audio_def)
  show "combine_loop L audio1 audio2 combined (seg # rest) =
      (case audio_slice L audio2 (start_ms L seg) (end_ms L seg) of
         Inl e \<Rightarrow> Inl e
       | Inr piece \<Rightarrow>
          (case audio_add L combined piece of
             Inl e \<Rightarrow> Inl e
           | Inr combined' \<Rightarrow> combine_loop L audio1 audio2 combined' rest))"
    by (simp add: a)
  show "combine_segments L f1 f2 (pre @ seg # rest) s =
      combine_segments L f1 f2 (pre @ seg\<lparr>seg_source := ''audio2''\<rparr> # rest) s"
    unfolding combine_segments_def combine_loop_source_cong [OF assms] ..
qed

theorem unknown_source_is_second_clip_witness:
  "''Audio1'' \<noteq> ''audio1'' \<and>
   combine_segments reference_runtime (Some clip_a) (Some clip_b) misspelled_segments empty_disk
   = (Some ''combined_audio.wav'',
       \<lparr>files = (\<lambda>p. None)(NamedFile ''combined_audio.wav'' \<mapsto> [10, 20]),
        next_tmp = 2, shown = []\<rparr>)"
proof -
  have "combine_segments reference_runtime (Some clip_a) (Some clip_b) misspelled_segments empty_disk
     = combine_segments reference_runtime (Some clip_a) (Some clip_b)
        ([\<lparr>seg_source = ''audio1'', seg_text = ''one'', seg_start = 0, seg_end = 1 / 1000\<rparr>] @
          \<lparr>seg_source = ''Audio1'', seg_text = ''two'', seg_start = 0, seg_end = 1 / 1000\<rparr>
            \<lparr>seg_source := ''audio2''\<rparr> # []) empty_disk"
    using unknown_source_is_second_clip
      [of "\<lparr>seg_source = ''Audio1'', seg_text = ''two'', seg_start = 0, seg_end = 1 / 1000\<rparr>"
          "[]" "[]" reference_runtime "[]" "[]" "Some clip_a" "Some clip_b"
          "[\<lparr>seg_source = ''audio1'', seg_text = ''one'', seg_start = 0, seg_end = 1 / 1000\<rparr>]"
          empty_disk]
    by (simp add: misspelled_segments_def)
  also have "\<dots> = (Some ''combined_audio.wav'',
       \<lparr>files = (\<lambda>p. None)(NamedFile ''combined_audio.wav'' \<mapsto> [10, 20]),
        next_tmp = 2, shown = []\<rparr>)"
    by (simp add: combine_segments_uploaded reference_runtime_def clip_a_def clip_b_def
      empty_disk_def source_audio_def start_ms_def end_ms_def py_int_def
      ms_slice_def output_path_def export_to_def cleaned_def)
  finally show ?thesis by simp
qed

subsection \<open>The empty descriptor list\<close>



text \<open>
  The script itself never gets there: line 155 offers the combine button only while
  the list is not empty.
\<close>

lemma combine_clicked_no_segments:
  "segments ss = [] \<Longrightarrow> combine_clicked L f1 f2 (ss, s) = (ss, s)"
  by (simp add: combine_clicked_def)

subsection \<open>The session after a failed combine\<close>

lemma combine_clicked_session: "fst (combine_clicked L f1 f2 (ss, s)) = ss"
  by (simp add: combine_clicked_def Let_def split: prod.splits option.splits sum.splits)

text \<open>
  C8. A combine that fails (\<open>combine_segments\<close> returns \<^verbatim>\<open>None\<close>) leaves the
  session as it was: the transcriptions and the segment list after the run of the script
  are those before it.
\<close>

theorem failed_combine_keeps_session:
  assumes "fst (combine_segments L f1 f2 (segments ss) s) = None"
  shows "fst (combine_clicked L f1 f2 (ss, s)) = ss \<and>
         transcriptions (fst (main L f1 f2 CombineSelected (Some ss, s))) = transcriptions ss \<and>
         segments (fst (main L f1 f2 CombineSelected (Some ss, s))) = segments ss"
  by (simp add: main_def initialise_def combine_clicked_session)

theorem failed_combine_keeps_session_witness:
  "fst (combine_segments reference_runtime (Some []) (Some clip_b) (segments two_transcripts)
          empty_disk) = None \<and>
   shown (snd (main reference_runtime (Some []) (Some clip_b) CombineSelected
                 (Some two_transcripts, empty_disk)))
     = [StError ''Error combining audio: Decoding failed''] \<and>
   fst (main reference_runtime (Some []) (Some clip_b) CombineSelected
          (Some two_transcripts, empty_disk)) = two_transcripts"
proof -
  have f: "fst (combine_segments reference_runtime (Some []) (Some clip_b)
                  (segments two_transcripts) empty_disk) = None"
    by (simp add: combine_segments_uploaded reference_runtime_def combine_failed_def)
  have v: "selection_visible two_transcripts"
    by (simp add: selection_visible_def two_transcripts_def truthy_def)
  have n: "segments two_transcripts \<noteq> []"
    by (simp add: two_transcripts_def three_segments_def)
  have sh: "shown (snd (main reference_runtime (Some []) (Some clip_b) CombineSelected
                 (Some two_transcripts, empty_disk)))
     = [StError ''Error combining audio: Decoding failed'']"
    using v n
    by (simp add: main_def initialise_def combine_clicked_def combine_segments_uploaded
          reference_runtime_def combine_failed_def st_error_def staged_def empty_disk_def)
  from failed_combine_keeps_session [OF f] f sh show ?thesis
    by (simp add: session_state.equality)
qed

subsection \<open>Adding a segment\<close>



subsection \<open>Removing a segment\<close>







subsection \<open>Combining with an upload missing\<close>

text \<open>
  C5, as the code has it. With a non-empty descriptor list and either upload missing,
  whether or not a descriptor names it, the combine button shows the one fixed message
  of line 179, which does not say which upload is missing. \<open>combine_segments\<close> is not
  called: nothing is decoded, sliced or exported (the result is the same for every
  runtime), no file is written and the session is as before.
\<close>

theorem combine_needs_both_uploads:
  assumes "segments ss \<noteq> []" and "audio1_file = None \<or> audio2_file = None"
  shows "combine_clicked L audio1_file audio2_file (ss, s) =
           (ss, s\<lparr>shown := shown s @ [StError ''Please upload both audio files first!'']\<rparr>)"
  using assms by (auto simp: combine_clicked_def st_error_def)

theorem combine_needs_both_uploads_witness:
  "main reference_runtime (Some clip_a) None CombineSelected (Some second_only, empty_disk) =
     (second_only,
      \<lparr>files = (\<lambda>p. None), next_tmp = 0,
       shown = [StError ''Please upload both audio files first!'']\<rparr>)"
proof -
  have "segments second_only \<noteq> []" by (simp add: second_only_def)
  from combine_needs_both_uploads [OF this, of "Some clip_a" None reference_runtime empty_disk]
  show ?thesis
    by (simp add: main_def initialise_def selection_visible_def truthy_def second_only_def
          empty_disk_def)
qed

text \<open>
  The message is the same whether the second upload is missing and named by the
  descriptor, the first is missing and named, or the first is missing and not named.
\<close>

theorem missing_clip_error_names_no_slot_counterexample:
  "shown (snd (combine_clicked reference_runtime (Some clip_a) None (second_only, empty_disk)))
     = [StError ''Please upload both audio files first!''] \<and>
   shown (snd (combine_clicked reference_runtime None (Some clip_b) (first_only, empty_disk)))
     = [StError ''Please upload both audio files first!''] \<and>
   shown (snd (combine_clicked reference_runtime None (Some clip_b) (second_only, empty_disk)))
     = [StError ''Please upload both audio files first!'']"
  by (simp add: combine_clicked_def st_error_def second_only_def first_only_def empty_disk_def)

subsection \<open>The temporary file of load_and_transcribe\<close>

text \<open>
  A call that returns a text has unlinked its temporary file; a call that returns
  \<^verbatim>\<open>None\<close> has not.
\<close>

lemma load_and_transcribe_success_unlinks:
  assumes "load_and_transcribe L audio_file s = (Some txt, s')"
  shows "files s' (TmpFile (next_tmp s)) = None"
  using assms
  by (auto simp: load_and_transcribe_def named_temporary_file_def transcribe_failed_def
        unlink_def Let_def split: sum.splits)

lemma load_and_transcribe_failure_leaks:
  assumes "load_and_transcribe L audio_file s = (None, s')"
  shows "files s' (TmpFile (next_tmp s)) \<noteq> None"
  using assms
  by (auto simp: load_and_transcribe_def named_temporary_file_def transcribe_failed_def
        unlink_def tmp_write_def export_to_def st_error_def Let_def split: sum.splits)

text \<open>
  C9. An upload that does not decode: the call shows the error and returns
  \<^verbatim>\<open>None\<close>, and the temporary file it created is still on the disk, holding the
  upload.
\<close>

theorem transcribe_failure_leaves_temporary_file:
  "load_and_transcribe reference_runtime (Some [0, 7]) empty_disk =
     (None,
      \<lparr>files = (\<lambda>p. None)(TmpFile 0 \<mapsto> [0, 7]), next_tmp = 1,
       shown = [StError ''Error processing audio: Decoding failed'']\<rparr>)"
  by (simp add: load_and_transcribe_def named_temporary_file_def getvalue_def tmp_write_def
        from_file_path_def read_file_def reference_runtime_def transcribe_failed_def
        st_error_def empty_disk_def)

end
